theory Spec2Isabelle
  imports Complex_Main "HOL-Library.Log_Nat" "HOL-Library.Code_Target_Numeral"
begin

section \<open>Dynamic flux balance analysis: the notebook \<open>documentation_builder/dfba.ipynb\<close>\<close>

text \<open>
  The notebook couples an ODE integrator to a linear program that is solved at every
  evaluation of the right-hand side. The integrator passes the state as an array of
  float64 numbers, so the bound that \<open>add_dynamic_bounds\<close> computes from the state is
  modelled in float64 arithmetic: every operation is rounded to the nearest float64, and
  overflow and division by zero give infinities. The state components, the fluxes and the
  times themselves are given as the real numbers they denote.
  Every raise of the Python code is a value of the type \<open>error\<close>; functions that mutate
  the model object take the model and return it, together with their result.
\<close>

subsection \<open>Data\<close>

datatype error = ValueError | AttributeError | OptimizationError

subsection \<open>float64 numbers\<close>

text \<open>
  A float64 is a finite number, an infinity or not-a-number. The finite ones are the
  numbers \<open>k * 2^e\<close> with \<open>|k| < 2^53\<close> and \<open>-1074 \<le> e \<le> 971\<close>; the two zeros are
  identified.
\<close>

datatype float64 = Finite real | PosInf | NegInf | NaN

text \<open>Rounding a non-negative number to the nearest integer, ties to the even one.\<close>

definition round_half_even :: "real \<Rightarrow> int" where
  "round_half_even r =
     (let f = \<lfloor>r\<rfloor>; d = r - of_int f
      in if d < 1 / 2 then f else if 1 / 2 < d then f + 1 else if even f then f else f + 1)"

text \<open>
  Rounding a real number to the nearest float64, ties to even. \<open>n\<close> is the magnitude in
  units of the smallest positive float64, \<open>2^-1074\<close>; a magnitude of more than 53 bits
  keeps its leading 53 bits, rounded; a result of magnitude \<open>2^1024\<close> or more overflows
  to an infinity.
\<close>

definition to_float64 :: "real \<Rightarrow> float64" where
  "to_float64 x =
     (let n = \<bar>x\<bar> * 2 ^ 1074;
          s = floorlog 2 (nat \<lfloor>n\<rfloor>) - 53;
          units = round_half_even (n / 2 ^ s) * 2 ^ s
      in if 2 ^ 2098 \<le> units then (if x < 0 then NegInf else PosInf)
         else Finite (sgn x * of_int units / 2 ^ 1074))"

text \<open>
  The float64 operations \<open>*\<close>, \<open>+\<close>, \<open>/\<close> and \<open><\<close> of numpy. Division by zero does not
  raise on float64 scalars: it gives an infinity, or not-a-number for \<open>0 / 0\<close>. The
  only zero divisor that arises below, \<open>5 + (-5)\<close>, is the positive zero.
\<close>

fun f_mul :: "float64 \<Rightarrow> float64 \<Rightarrow> float64" where
  "f_mul (Finite x) (Finite y) = to_float64 (x * y)"
| "f_mul NaN _ = NaN"
| "f_mul _ NaN = NaN"
| "f_mul (Finite x) PosInf = (if x = 0 then NaN else if 0 < x then PosInf else NegInf)"
| "f_mul (Finite x) NegInf = (if x = 0 then NaN else if 0 < x then NegInf else PosInf)"
| "f_mul PosInf (Finite y) = (if y = 0 then NaN else if 0 < y then PosInf else NegInf)"
| "f_mul NegInf (Finite y) = (if y = 0 then NaN else if 0 < y then NegInf else PosInf)"
| "f_mul PosInf PosInf = PosInf"
| "f_mul PosInf NegInf = NegInf"
| "f_mul NegInf PosInf = NegInf"
| "f_mul NegInf NegInf = PosInf"

fun f_add :: "float64 \<Rightarrow> float64 \<Rightarrow> float64" where
  "f_add (Finite x) (Finite y) = to_float64 (x + y)"
| "f_add NaN _ = NaN"
| "f_add _ NaN = NaN"
| "f_add PosInf NegInf = NaN"
| "f_add NegInf PosInf = NaN"
| "f_add PosInf _ = PosInf"
| "f_add NegInf _ = NegInf"
| "f_add _ PosInf = PosInf"
| "f_add _ NegInf = NegInf"

fun f_div :: "float64 \<Rightarrow> float64 \<Rightarrow> float64" where
  "f_div (Finite x) (Finite y) =
     (if y = 0 then (if x = 0 then NaN else if 0 < x then PosInf else NegInf)
      else to_float64 (x / y))"
| "f_div NaN _ = NaN"
| "f_div _ NaN = NaN"
| "f_div (Finite x) PosInf = Finite 0"
| "f_div (Finite x) NegInf = Finite 0"
| "f_div PosInf (Finite y) = (if 0 \<le> y then PosInf else NegInf)"
| "f_div NegInf (Finite y) = (if 0 \<le> y then NegInf else PosInf)"
| "f_div _ _ = NaN"

fun f_less :: "float64 \<Rightarrow> float64 \<Rightarrow> bool" where
  "f_less (Finite x) (Finite y) = (x < y)"
| "f_less NaN _ = False"
| "f_less _ NaN = False"
| "f_less _ NegInf = False"
| "f_less PosInf _ = False"
| "f_less NegInf _ = True"
| "f_less _ PosInf = True"

text \<open>A reaction of the metabolic model, as far as the notebook reads or writes it.\<close>

record reaction =
  lower_bound :: float64
  upper_bound :: float64

text \<open>
  The metabolic model object. The notebook treats it as opaque: the objective and the
  constraints of the underlying linear program are type parameters. \<open>reactions\<close> maps a
  reaction identifier to the reaction, as \<open>model.reactions.<id>\<close> does.
\<close>

record ('o, 'c) model =
  reactions :: "string \<rightharpoonup> reaction"
  objective :: 'o
  constraints :: "'c list"

text \<open>A computation on the model object that may raise.\<close>

type_synonym ('o, 'c, 'a) action = "('o, 'c) model \<Rightarrow> (error + 'a) \<times> ('o, 'c) model"

text \<open>Sequencing of two statements: an exception of the first skips the second.\<close>

definition and_then ::
  "('o, 'c, 'a) action \<Rightarrow> ('a \<Rightarrow> ('o, 'c, 'b) action) \<Rightarrow> ('o, 'c, 'b) action" where
  "and_then f g m =
     (case f m of
        (Inl e, m') \<Rightarrow> (Inl e, m')
      | (Inr a, m') \<Rightarrow> g a m')"

subsection \<open>\<open>add_dynamic_bounds\<close>\<close>

text \<open>
  \<^verbatim>\<open>
  def add_dynamic_bounds(model, y):
      biomass, glucose = y  # expand the boundary species
      glucose_max_import = -10 * glucose / (5 + glucose)
      model.reactions.EX_glc__D_e.lower_bound = glucose_max_import
  \<close>
  Unpacking raises \<open>ValueError\<close> unless \<open>y\<close> has exactly two components. The value of
  \<open>glucose_max_import\<close> is computed in float64 arithmetic; at \<open>glucose = -5\<close> the divisor
  is zero and the value is \<open>+inf\<close>. The attribute lookup raises \<open>AttributeError\<close> when the
  model has no reaction of that name.
\<close>

definition glucose_max_import :: "real \<Rightarrow> float64" where
  "glucose_max_import glucose =
     f_div (f_mul (Finite (- 10)) (Finite glucose)) (f_add (Finite 5) (Finite glucose))"

text \<open>
  The assignment to \<open>lower_bound\<close> runs the setter of that property of cobra's reaction
  class. The setter is not part of the notebook and the spec does not describe it; it is
  modelled as it acts on the model object: when the new lower bound is above the upper
  bound, the upper bound is raised to the new value, and then the lower bound is stored.
\<close>

definition set_lower_bound :: "float64 \<Rightarrow> reaction \<Rightarrow> reaction" where
  "set_lower_bound v r =
     (let r' = (if f_less (upper_bound r) v then r\<lparr>upper_bound := v\<rparr> else r)
      in r'\<lparr>lower_bound := v\<rparr>)"

definition add_dynamic_bounds :: "real list \<Rightarrow> ('o, 'c, unit) action" where
  "add_dynamic_bounds y m =
     (case y of
        [biomass, glucose] \<Rightarrow>
          (let v = glucose_max_import glucose in
           (case reactions m ''EX_glc__D_e'' of
              None \<Rightarrow> (Inl AttributeError, m)
            | Some r \<Rightarrow>
                (Inr (),
                 m\<lparr>reactions := (reactions m)(''EX_glc__D_e'' \<mapsto> set_lower_bound v r)\<rparr>)))
      | _ \<Rightarrow> (Inl ValueError, m))"

subsection \<open>The collaborators\<close>

text \<open>
  The notebook calls three functions of \<open>cobra.util\<close> that build and solve linear programs
  on the model object, and formats the time for display. They are parameters of the
  embedding. Each of the three may change the model object and may raise.
  \<open>fix_objective_as_constraint\<close> returns the optimal value of the current objective;
  \<open>add_lexicographic_constraints\<close> takes the objectives and their directions and returns
  the vector of optimised values. \<open>format_3f\<close> stands for \<^verbatim>\<open>'{:.3f}'.format\<close>.
\<close>

record ('o, 'c) library =
  add_lp_feasibility :: "('o, 'c, unit) action"
  fix_objective_as_constraint :: "('o, 'c, real) action"
  add_lexicographic_constraints :: "string list \<Rightarrow> string list \<Rightarrow> ('o, 'c, real list) action"
  format_3f :: "real \<Rightarrow> string"

text \<open>
  Modelled from the spec: the context manager of the model object (\<^verbatim>\<open>with model:\<close>), whose
  code is not part of the notebook. The spec describes the model object as
  "temporarily mutated and restored per evaluation": whatever the body does to the model,
  and whether or not it raises, the model is as it was on entry when the block is left.
\<close>

definition with_model :: "('o, 'c, 'a) action \<Rightarrow> ('o, 'c, 'a) action" where
  "with_model body m = (fst (body m), m)"

text \<open>The progress bar: the number of updates and the description shown.\<close>

record tqdm =
  updates :: nat
  description :: string

definition update :: "nat \<Rightarrow> tqdm \<Rightarrow> tqdm" where
  "update k p = p\<lparr>updates := updates p + k\<rparr>"

definition set_description :: "string \<Rightarrow> tqdm \<Rightarrow> tqdm" where
  "set_description d p = p\<lparr>description := d\<rparr>"

subsection \<open>\<open>dynamic_system\<close>\<close>

text \<open>
  \<^verbatim>\<open>
  def dynamic_system(t, y):
      biomass, glucose = y  # expand the boundary species
      with model:
          add_dynamic_bounds(model, y)
          cobra.util.add_lp_feasibility(model)
          feasibility = cobra.util.fix_objective_as_constraint(model)
          lex_constraints = cobra.util.add_lexicographic_constraints(
              model, ['Biomass_Ecoli_core', 'EX_glc__D_e'], ['max', 'max'])
      fluxes = lex_constraints.values
      fluxes *= biomass
      if dynamic_system.pbar is not None:
          dynamic_system.pbar.update(1)
          dynamic_system.pbar.set_description('t = {:.3f}'.format(t))
      return fluxes
  \<close>
  The state is the global model object and the attribute \<open>dynamic_system.pbar\<close>.
\<close>

definition dynamic_system ::
  "('o, 'c) library \<Rightarrow> real \<Rightarrow> real list \<Rightarrow> ('o, 'c) model \<Rightarrow> tqdm option \<Rightarrow>
     (error + real list) \<times> ('o, 'c) model \<times> tqdm option" where
  "dynamic_system L t y m pbar =
     (case y of
        [biomass, glucose] \<Rightarrow>
          (case with_model
                  (and_then (add_dynamic_bounds y) (\<lambda>_.
                   and_then (add_lp_feasibility L) (\<lambda>_.
                   and_then (fix_objective_as_constraint L) (\<lambda>feasibility.
                   add_lexicographic_constraints L
                     [''Biomass_Ecoli_core'', ''EX_glc__D_e''] [''max'', ''max''])))) m of
             (Inl e, m') \<Rightarrow> (Inl e, m', pbar)
           | (Inr lex_constraints, m') \<Rightarrow>
               let fluxes = map (\<lambda>v. v * biomass) lex_constraints in
               (Inr fluxes, m',
                (case pbar of
                   None \<Rightarrow> None
                 | Some p \<Rightarrow> Some (set_description (''t = '' @ format_3f L t) (update 1 p)))))
      | _ \<Rightarrow> (Inl ValueError, m, pbar))"

subsection \<open>\<open>infeasible_event\<close>\<close>

text \<open>
  \<^verbatim>\<open>
  def infeasible_event(t, y):
      with model:
          add_dynamic_bounds(model, y)
          cobra.util.add_lp_feasibility(model)
          feasibility = cobra.util.fix_objective_as_constraint(model)
      return feasibility - infeasible_event.epsilon

  infeasible_event.epsilon = 1E-6
  infeasible_event.direction = 1
  infeasible_event.terminal = True
  \<close>
\<close>

definition epsilon :: real where
  "epsilon = 1 / 1000000"

definition infeasible_event :: "('o, 'c) library \<Rightarrow> real \<Rightarrow> real list \<Rightarrow> ('o, 'c, real) action" where
  "infeasible_event L t y m =
     (case with_model
             (and_then (add_dynamic_bounds y) (\<lambda>_.
              and_then (add_lp_feasibility L) (\<lambda>_.
              fix_objective_as_constraint L))) m of
        (Inl e, m') \<Rightarrow> (Inl e, m')
      | (Inr feasibility, m') \<Rightarrow> (Inr (feasibility - epsilon), m'))"

text \<open>An event function as the integrator receives it, with its two attributes.\<close>

record ('o, 'c) event =
  event_fun :: "real \<Rightarrow> real list \<Rightarrow> ('o, 'c, real) action"
  direction :: int
  terminal :: bool

definition infeasible_event_handle :: "('o, 'c) library \<Rightarrow> ('o, 'c) event" where
  "infeasible_event_handle L =
     \<lparr>event_fun = infeasible_event L, direction = 1, terminal = True\<rparr>"

subsection \<open>Running the simulation\<close>

text \<open>
  \<^verbatim>\<open>
  ts = np.linspace(0, 15, 100)  # Desired integration resolution and interval
  y0 = [0.1, 10]

  with tqdm() as pbar:
      dynamic_system.pbar = pbar
      sol = solve_ivp(fun=dynamic_system, events=[infeasible_event],
          t_span=(ts.min(), ts.max()), y0=y0, t_eval=ts,
          rtol=1e-6, atol=1e-8, method='BDF')
  \<close>
  \<open>linspace start stop num\<close> is numpy's: \<open>num\<close> samples \<open>start + i * step\<close> with
  \<open>step = (stop - start) / (num - 1)\<close>, the last one set to \<open>stop\<close>.
\<close>

definition linspace :: "real \<Rightarrow> real \<Rightarrow> nat \<Rightarrow> real list" where
  "linspace start stop num =
     (if num = 0 then []
      else if num = 1 then [start]
      else
        let step = (stop - start) / real (num - 1);
            y = map (\<lambda>i. real i * step + start) [0..<num]
        in y[num - 1 := stop])"

definition ts :: "real list" where
  "ts = linspace 0 15 100"

definition y0 :: "real list" where
  "y0 = [1 / 10, 10]"

text \<open>The keyword arguments of the call of \<open>solve_ivp\<close>.\<close>

record ('o, 'c) solve_ivp_args =
  ivp_fun :: "real \<Rightarrow> real list \<Rightarrow> ('o, 'c) model \<Rightarrow> tqdm option \<Rightarrow>
                (error + real list) \<times> ('o, 'c) model \<times> tqdm option"
  ivp_events :: "('o, 'c) event list"
  ivp_t_span :: "real \<times> real"
  ivp_y0 :: "real list"
  ivp_t_eval :: "real list"
  ivp_rtol :: real
  ivp_atol :: real
  ivp_method :: string

definition simulation_args :: "('o, 'c) library \<Rightarrow> ('o, 'c) solve_ivp_args" where
  "simulation_args L =
     \<lparr>ivp_fun = dynamic_system L,
      ivp_events = [infeasible_event_handle L],
      ivp_t_span = (Min (set ts), Max (set ts)),
      ivp_y0 = y0,
      ivp_t_eval = ts,
      ivp_rtol = 1 / 1000000,
      ivp_atol = 1 / 100000000,
      ivp_method = ''BDF''\<rparr>"

text \<open>
  The integrator \<open>solve_ivp\<close> is a parameter: it receives the arguments, the model object
  and the fresh progress bar that is stored in \<open>dynamic_system.pbar\<close>, and its result is
  bound to \<open>sol\<close>.
\<close>

definition simulation ::
  "(('o, 'c) solve_ivp_args \<Rightarrow> ('o, 'c) model \<Rightarrow> tqdm option \<Rightarrow> 'sol) \<Rightarrow>
     ('o, 'c) library \<Rightarrow> ('o, 'c) model \<Rightarrow> 'sol" where
  "simulation solve_ivp L m =
     (let pbar = \<lparr>updates = 0, description = []\<rparr>;
          sol = solve_ivp (simulation_args L) m (Some pbar)
      in sol)"

subsection \<open>Concrete instances\<close>

text \<open>A small model with the two reactions the notebook names, for concrete evaluations.\<close>

definition example_model :: "(string, string) model" where
  "example_model =
     \<lparr>reactions =
        [''EX_glc__D_e'' \<mapsto> \<lparr>lower_bound = Finite (- 10), upper_bound = Finite 1000\<rparr>,
         ''Biomass_Ecoli_core'' \<mapsto> \<lparr>lower_bound = Finite 0, upper_bound = Finite 1000\<rparr>],
      objective = ''Biomass_Ecoli_core'',
      constraints = []\<rparr>"

text \<open>
  The bound that is set at the glucose concentration \<open>10\<close>: the float64 nearest to
  \<open>-100 / 15\<close>, printed as \<open>-6.666666666666667\<close>.
\<close>

definition example_bound :: real where
  "example_bound = - 7505999378950827 / 1125899906842624"

text \<open>
  A toy instance of the collaborators on that model. The feasibility problem adds one
  constraint and its optimum is the glucose secretion that the lower bound of the exchange
  forces (zero when the bound admits uptake); the lexicographic solve grows at a tenth of
  the admitted glucose uptake.
\<close>

definition example_lex_value :: "(string, string) model \<Rightarrow> string \<Rightarrow> real" where
  "example_lex_value m rid =
     (case reactions m ''EX_glc__D_e'' of
        None \<Rightarrow> 0
      | Some r \<Rightarrow>
          (case lower_bound r of
             Finite l \<Rightarrow> if rid = ''Biomass_Ecoli_core'' then - l / 10 else l
           | _ \<Rightarrow> 0))"

definition example_library :: "(string, string) library" where
  "example_library =
     \<lparr>add_lp_feasibility =
        (\<lambda>m. (Inr (), m\<lparr>objective := ''feasibility'',
                          constraints := ''slack'' # constraints m\<rparr>)),
      fix_objective_as_constraint =
        (\<lambda>m. (case reactions m ''EX_glc__D_e'' of
                None \<Rightarrow> (Inl OptimizationError, m)
              | Some r \<Rightarrow>
                  (case lower_bound r of
                     Finite l \<Rightarrow>
                       (Inr (max 0 l), m\<lparr>constraints := ''fixed'' # constraints m\<rparr>)
                   | _ \<Rightarrow> (Inl OptimizationError, m)))),
      add_lexicographic_constraints =
        (\<lambda>objectives directions m.
           (Inr (map (example_lex_value m) objectives),
            m\<lparr>objective := ''lexicographic'',
              constraints := objectives @ constraints m\<rparr>)),
      format_3f = (\<lambda>t. ''0.000'')\<rparr>"

section \<open>Properties\<close>

subsection \<open>Rounding to float64\<close>

lemma round_half_even_error: "\<bar>of_int (round_half_even r) - r\<bar> \<le> 1 / 2"
  unfolding round_half_even_def Let_def by (auto simp: abs_if) linarith+

lemma round_half_even_le: "r \<le> of_int j \<Longrightarrow> round_half_even r \<le> j"
  unfolding round_half_even_def Let_def
  by (auto simp: floor_le_iff le_floor_iff)

lemma round_half_even_nonneg: "0 \<le> r \<Longrightarrow> 0 \<le> round_half_even r"
  unfolding round_half_even_def Let_def by auto

lemma round_half_even_int: "round_half_even (of_int j) = j"
  unfolding round_half_even_def Let_def by simp


lemma units_error:
  "\<bar>real_of_int (round_half_even (n / 2 ^ s) * 2 ^ s) - n\<bar> \<le> 2 ^ s / 2"
proof -
  have "real_of_int (round_half_even (n / 2 ^ s) * 2 ^ s) - n =
          (of_int (round_half_even (n / 2 ^ s)) - n / 2 ^ s) * 2 ^ s"
    by (simp add: algebra_simps)
  then have "\<bar>real_of_int (round_half_even (n / 2 ^ s) * 2 ^ s) - n\<bar> =
          \<bar>of_int (round_half_even (n / 2 ^ s)) - n / 2 ^ s\<bar> * 2 ^ s"
    by (simp add: abs_mult)
  also have "\<dots> \<le> (1 / 2) * 2 ^ s"
    by (rule mult_right_mono [OF round_half_even_error]) simp
  finally show ?thesis by simp
qed

lemma shift_bound:
  assumes "0 \<le> n"
  shows "(2::real) ^ (floorlog 2 (nat \<lfloor>n\<rfloor>) - 53) \<le> 1 + n / 2 ^ 52"
proof (cases "floorlog 2 (nat \<lfloor>n\<rfloor>) \<le> 53")
  case True
  then have "floorlog 2 (nat \<lfloor>n\<rfloor>) - 53 = 0" by simp
  then show ?thesis using assms by simp
next
  case False
  define N where "N = nat \<lfloor>n\<rfloor>"
  define k where "k = floorlog 2 N"
  from False have k: "53 < k" by (simp add: k_def N_def)
  then have "0 < N" by (auto simp: k_def floorlog_def split: if_splits)
  from floorlog_bounds [OF this, of 2] have "2 ^ (k - 1) \<le> N" by (simp add: k_def)
  then have "(2::real) ^ (k - 1) \<le> real N"
    by (metis of_nat_le_iff of_nat_numeral of_nat_power)
  also have "real N \<le> n" using assms by (simp add: N_def)
  finally have le: "(2::real) ^ (k - 1) \<le> n" .
  have "k - 1 = (k - 53) + 52" using k by simp
  then have "(2::real) ^ (k - 1) = 2 ^ (k - 53) * 2 ^ 52" by (simp only: power_add)
  with le have "(2::real) ^ (k - 53) * 2 ^ 52 \<le> n" by simp
  then have "(2::real) ^ (k - 53) \<le> n / 2 ^ 52" by (simp add: pos_le_divide_eq)
  then show ?thesis by (simp add: k_def N_def)
qed


lemma to_float64_finite:
  assumes "\<bar>x\<bar> \<le> 2 ^ 1000"
  shows "\<exists>v. to_float64 x = Finite v \<and> \<bar>v - x\<bar> \<le> \<bar>x\<bar> / 2 ^ 53 + 1 / 2 ^ 1075 \<and>
           (0 \<le> x \<longrightarrow> 0 \<le> v) \<and> (x \<le> 0 \<longrightarrow> v \<le> 0)"
proof -
  define P where "P = (2::real) ^ 1074"
  define n where "n = \<bar>x\<bar> * P"
  define s where "s = floorlog 2 (nat \<lfloor>n\<rfloor>) - 53"
  define units where "units = round_half_even (n / 2 ^ s) * 2 ^ s"
  define v where "v = sgn x * of_int units / P"
  have P: "0 < P" by (simp add: P_def)
  have n0: "0 \<le> n" using P by (simp add: n_def)
  have def: "to_float64 x =
      (if 2 ^ 2098 \<le> units then (if x < 0 then NegInf else PosInf) else Finite v)"
    unfolding to_float64_def Let_def v_def units_def s_def n_def P_def ..
  have e: "\<bar>real_of_int units - n\<bar> \<le> 2 ^ s / 2"
    unfolding units_def by (rule units_error)
  have sb: "(2::real) ^ s \<le> 1 + n / 2 ^ 52"
    unfolding s_def by (rule shift_bound [OF n0])
  from e sb have e2: "\<bar>real_of_int units - n\<bar> \<le> 1 / 2 + n / 2 ^ 53" by simp
  have "(2::real) ^ 2074 = 2 ^ 1000 * 2 ^ 1074" by (simp only: power_add [symmetric]) simp
  then have nb: "n \<le> 2 ^ 2074"
    using assms P unfolding n_def P_def by (simp add: mult_right_mono)
  have u0: "0 \<le> units"
    unfolding units_def using n0 by (simp add: round_half_even_nonneg)
  have "real_of_int units \<le> n + (1 / 2 + n / 2 ^ 53)" using e2 by linarith
  also have "\<dots> \<le> n + (1 + n)" using n0 by (simp add: field_simps)
  also have "\<dots> \<le> 2 ^ 2074 + (1 + 2 ^ 2074)" using nb by simp
  also have "\<dots> < 2 ^ 2098" by simp
  finally have "real_of_int units < real_of_int (2 ^ 2098)" by simp
  then have "units < 2 ^ 2098" by (simp only: of_int_less_iff)
  then have no: "\<not> 2 ^ 2098 \<le> units" by simp
  with def have fin: "to_float64 x = Finite v" by simp
  have "v - x = sgn x * (real_of_int units / P - \<bar>x\<bar>)"
    by (simp add: v_def algebra_simps flip: mult_sgn_abs) (metis mult_sgn_abs mult.commute)
  then have "\<bar>v - x\<bar> = \<bar>sgn x\<bar> * \<bar>real_of_int units / P - \<bar>x\<bar>\<bar>" by (simp add: abs_mult)
  also have "\<dots> \<le> 1 * \<bar>real_of_int units / P - \<bar>x\<bar>\<bar>"
    by (rule mult_right_mono) (simp_all add: abs_sgn_eq)
  also have "real_of_int units / P - \<bar>x\<bar> = (real_of_int units - n) / P"
    using P by (simp add: n_def field_simps)
  also have "1 * \<bar>(real_of_int units - n) / P\<bar> = \<bar>real_of_int units - n\<bar> / P"
    using P by simp
  also have "\<dots> \<le> (1 / 2 + n / 2 ^ 53) / P"
    using P e2 by (simp add: divide_right_mono)
  also have "\<dots> = \<bar>x\<bar> / 2 ^ 53 + 1 / (2 * P)"
    using P by (simp add: n_def field_simps)
  also have "2 * P = 2 ^ 1075" unfolding P_def by simp
  finally have err: "\<bar>v - x\<bar> \<le> \<bar>x\<bar> / 2 ^ 53 + 1 / 2 ^ 1075" .
  have pos: "0 \<le> x \<longrightarrow> 0 \<le> v" using u0 P by (simp add: v_def sgn_if)
  have neg: "x \<le> 0 \<longrightarrow> v \<le> 0" using u0 P
    by (auto simp: v_def sgn_if divide_nonpos_pos)
  from fin err pos neg show ?thesis by blast
qed


lemma to_float64_le_10:
  assumes "\<bar>x\<bar> \<le> 10"
  shows "\<exists>v. to_float64 x = Finite v \<and> \<bar>v\<bar> \<le> 10 \<and>
           (0 \<le> x \<longrightarrow> 0 \<le> v) \<and> (x \<le> 0 \<longrightarrow> v \<le> 0)"
proof -
  define P where "P = (2::real) ^ 1074"
  define n where "n = \<bar>x\<bar> * P"
  define s where "s = floorlog 2 (nat \<lfloor>n\<rfloor>) - 53"
  define units where "units = round_half_even (n / 2 ^ s) * 2 ^ s"
  define v where "v = sgn x * of_int units / P"
  have P: "0 < P" by (simp add: P_def)
  have n0: "0 \<le> n" using P by (simp add: n_def)
  have nb: "n \<le> 10 * P" using assms P by (simp add: n_def)
  have def: "to_float64 x =
      (if 2 ^ 2098 \<le> units then (if x < 0 then NegInf else PosInf) else Finite v)"
    unfolding to_float64_def Let_def v_def units_def s_def n_def P_def ..
  have "real (nat \<lfloor>n\<rfloor>) \<le> n" using n0 by simp
  also have "n < 2 ^ 1078" using nb unfolding P_def by simp
  finally have "real (nat \<lfloor>n\<rfloor>) < real (2 ^ 1078)" by simp
  then have "nat \<lfloor>n\<rfloor> < 2 ^ 1078" by (simp only: of_nat_less_iff)
  then have "floorlog 2 (nat \<lfloor>n\<rfloor>) \<le> 1078" by (simp add: floorlog_le_iff)
  then have s: "s \<le> 1074" by (simp add: s_def)
  then have split: "(2::real) ^ 1074 = 2 ^ (1074 - s) * 2 ^ s"
    by (simp add: power_add [symmetric])
  have "n / 2 ^ s \<le> 10 * P / 2 ^ s" using nb by (simp add: divide_right_mono)
  also have "\<dots> = real_of_int (10 * 2 ^ (1074 - s))"
    unfolding P_def split by simp
  finally have "round_half_even (n / 2 ^ s) \<le> 10 * 2 ^ (1074 - s)"
    by (rule round_half_even_le)
  then have "units \<le> (10 * 2 ^ (1074 - s)) * 2 ^ s"
    unfolding units_def by (simp add: mult_right_mono)
  also have "\<dots> = 10 * 2 ^ 1074"
    using s by (simp add: power_add [symmetric])
  finally have ub: "units \<le> 10 * 2 ^ 1074" .
  then have no: "\<not> 2 ^ 2098 \<le> units" by simp
  with def have fin: "to_float64 x = Finite v" by simp
  have u0: "0 \<le> units"
    unfolding units_def using n0 by (simp add: round_half_even_nonneg)
  from ub have "real_of_int units \<le> real_of_int (10 * 2 ^ 1074)" by (simp only: of_int_le_iff)
  then have "real_of_int units \<le> 10 * P" by (simp add: P_def)
  then have "real_of_int units / P \<le> 10" using P by (simp add: pos_divide_le_eq)
  moreover have "\<bar>v\<bar> \<le> real_of_int units / P"
    using u0 P by (auto simp: v_def sgn_if abs_if field_simps)
  ultimately have b: "\<bar>v\<bar> \<le> 10" by simp
  have pos: "0 \<le> x \<longrightarrow> 0 \<le> v" using u0 P by (simp add: v_def sgn_if)
  have neg: "x \<le> 0 \<longrightarrow> v \<le> 0" using u0 P
    by (auto simp: v_def sgn_if divide_nonpos_pos)
  from fin b pos neg show ?thesis by blast
qed


lemma to_float64_binade:
  assumes E: "E \<le> 2044"
    and lo: "2 ^ 52 * 2 ^ E \<le> \<bar>x\<bar> * 2 ^ 1074"
    and hi: "\<bar>x\<bar> * 2 ^ 1074 < 2 ^ 53 * 2 ^ E"
  shows "to_float64 x =
           Finite (sgn x * of_int (round_half_even (\<bar>x\<bar> * 2 ^ 1074 / 2 ^ E) * 2 ^ E) / 2 ^ 1074)"
proof -
  define n where "n = \<bar>x\<bar> * 2 ^ 1074"
  define N where "N = nat \<lfloor>n\<rfloor>"
  have n0: "0 \<le> n" by (simp add: n_def)
  have "real_of_int (2 ^ (52 + E)) \<le> n" using lo by (simp add: n_def power_add)
  then have "2 ^ (52 + E) \<le> \<lfloor>n\<rfloor>" by (simp only: le_floor_iff)
  then have Nlo: "2 ^ (52 + E) \<le> N" unfolding N_def
    by (metis nat_mono nat_numeral nat_power_eq zero_le_numeral)
  have "real N \<le> n" using n0 by (simp add: N_def)
  also have "n < real (2 ^ (53 + E))" using hi by (simp add: n_def power_add)
  finally have Nhi: "N < 2 ^ (53 + E)" by (simp only: of_nat_less_iff)
  have "floorlog 2 N \<le> 53 + E" using Nhi by (simp add: floorlog_le_iff)
  moreover have "53 + E \<le> floorlog 2 N" by (rule floorlog_geI) (use Nlo in simp_all)
  ultimately have k: "floorlog 2 N - 53 = E" by simp
  have "round_half_even (n / 2 ^ E) \<le> 2 ^ 53"
    by (rule round_half_even_le) (use hi in \<open>simp add: n_def field_simps\<close>)
  then have "round_half_even (n / 2 ^ E) * 2 ^ E \<le> 2 ^ 53 * 2 ^ E"
    by (simp add: mult_right_mono)
  also have "\<dots> \<le> (2::int) ^ 53 * 2 ^ 2044"
  proof (rule mult_left_mono)
    show "(2::int) ^ E \<le> 2 ^ 2044" by (rule power_increasing [OF E]) simp
  qed simp
  also have "\<dots> < 2 ^ 2098" by simp
  finally have no: "\<not> 2 ^ 2098 \<le> round_half_even (n / 2 ^ E) * 2 ^ E" by simp
  show ?thesis
    unfolding to_float64_def Let_def n_def [symmetric] N_def [symmetric] k
    using no by simp
qed

lemma to_float64_small:
  assumes "j \<le> 1074" and "2 ^ 52 \<le> \<bar>x\<bar> * 2 ^ j" and "\<bar>x\<bar> * 2 ^ j < 2 ^ 53"
  shows "to_float64 x = Finite (sgn x * of_int (round_half_even (\<bar>x\<bar> * 2 ^ j)) / 2 ^ j)"
proof -
  define E where "E = 1074 - j"
  have split: "(2::real) ^ 1074 = 2 ^ j * 2 ^ E"
    using assms(1) by (simp add: E_def power_add [symmetric])
  have E: "E \<le> 2044" by (simp add: E_def)
  have lo: "2 ^ 52 * 2 ^ E \<le> \<bar>x\<bar> * 2 ^ 1074"
    unfolding split using assms(2) by (simp add: mult_right_mono flip: mult.assoc)
  have hi: "\<bar>x\<bar> * 2 ^ 1074 < 2 ^ 53 * 2 ^ E"
    unfolding split using assms(3) by (simp add: mult_strict_right_mono flip: mult.assoc)
  show ?thesis
    unfolding to_float64_binade [OF E lo hi] unfolding split by simp
qed

lemma to_float64_large:
  assumes "j \<le> 970" and "2 ^ 52 * 2 ^ j \<le> \<bar>x\<bar>" and "\<bar>x\<bar> < 2 ^ 53 * 2 ^ j"
  shows "to_float64 x = Finite (sgn x * of_int (round_half_even (\<bar>x\<bar> / 2 ^ j)) * 2 ^ j)"
proof -
  define E where "E = 1074 + j"
  have split: "(2::real) ^ E = 2 ^ j * 2 ^ 1074" by (simp add: E_def power_add)
  have E: "E \<le> 2044" using assms(1) by (simp add: E_def)
  have lo: "2 ^ 52 * 2 ^ E \<le> \<bar>x\<bar> * 2 ^ 1074"
    unfolding split using assms(2) by (simp add: mult_right_mono flip: mult.assoc)
  have hi: "\<bar>x\<bar> * 2 ^ 1074 < 2 ^ 53 * 2 ^ E"
    unfolding split using assms(3) by (simp add: mult_strict_right_mono flip: mult.assoc)
  have isplit: "(2::int) ^ E = 2 ^ j * 2 ^ 1074" by (simp add: E_def power_add)
  show ?thesis
    unfolding to_float64_binade [OF E lo hi] unfolding split isplit by simp
qed

lemma round_half_even_numeral: "round_half_even (numeral k) = numeral k"
  using round_half_even_int [of "numeral k"] by simp


subsection \<open>The saturation function\<close>

lemma saturation_mono:
  "0 \<le> g1 \<Longrightarrow> g1 \<le> g2 \<Longrightarrow> - 10 * g2 / (5 + g2) \<le> - 10 * g1 / (5 + (g1::real))"
proof -
  assume g1: "0 \<le> g1" and le: "g1 \<le> g2"
  then have p1: "0 < 5 + g1" and p2: "0 < 5 + g2" by simp_all
  have "g1 * (5 + g2) \<le> g2 * (5 + g1)" using le by (simp add: algebra_simps)
  then have "g1 / (5 + g1) \<le> g2 / (5 + g2)" using p1 p2 by (simp add: frac_le_eq field_simps)
  then show ?thesis by simp
qed

lemma glucose_max_import_error:
  assumes g0: "0 \<le> g" and g1: "g \<le> 10 ^ 16"
  shows "\<exists>v. glucose_max_import g = Finite v \<and> - 10 \<le> v \<and> v \<le> 0 \<and>
           \<bar>v - (- 10 * g / (5 + g))\<bar> \<le> 1 / 2 ^ 47"
proof -
  define u :: real where "u = 1 / 2 ^ 53"
  define h :: real where "h = 1 / 2 ^ 1075"
  define A where "A = 5 + g"
  have u: "0 < u" "50 * u \<le> 1" "u \<le> 1 / 4" by (simp_all add: u_def)
  have h: "0 < h" "11 * h \<le> 1" "6 * h \<le> 14 * u" by (simp_all add: h_def u_def)
  have gu: "20 * g * u \<le> 23" using g1 by (simp add: u_def)
  have A5: "5 \<le> A" and gA: "g \<le> A" and A0: "0 < A" using g0 by (simp_all add: A_def)
  \<comment> \<open>the product\<close>
  have "\<bar>- 10 * g\<bar> \<le> 2 ^ 1000" using g0 g1 by simp
  from to_float64_finite [OF this] obtain a where
    a: "to_float64 (- 10 * g) = Finite a" and
    ea': "\<bar>a - (- 10 * g)\<bar> \<le> \<bar>- 10 * g\<bar> / 2 ^ 53 + 1 / 2 ^ 1075" and
    a0: "a \<le> 0" using g0 by auto
  from ea' have ea: "\<bar>a + 10 * g\<bar> \<le> 10 * g * u + h"
    using g0 by (simp add: u_def h_def abs_mult)
  \<comment> \<open>the sum\<close>
  have "\<bar>5 + g\<bar> \<le> 2 ^ 1000" using g0 g1 by simp
  from to_float64_finite [OF this] obtain d where
    d: "to_float64 (5 + g) = Finite d" and
    ed': "\<bar>d - (5 + g)\<bar> \<le> \<bar>5 + g\<bar> / 2 ^ 53 + 1 / 2 ^ 1075" by auto
  from ed' have ed: "\<bar>d - A\<bar> \<le> A * u + h"
    using g0 by (simp add: u_def h_def A_def)
  have Au: "A * u \<le> A * (1 / 4)" using u(3) A0 by (rule mult_left_mono [OF _ less_imp_le])
  from ed have "A - d \<le> A * u + h" by (simp add: abs_le_iff)
  with Au h(2) A5 have dlow: "A / 2 \<le> d" by linarith
  then have dpos: "0 < d" using A0 by linarith
  \<comment> \<open>the quotient\<close>
  have "A * u \<le> g * u + 5 * u" by (simp add: A_def algebra_simps)
  then have "- a \<le> 10 * d" using ea ed gu u h by (simp add: abs_le_iff A_def)
  then have q10: "- a / d \<le> 10" using dpos by (simp add: field_simps)
  have q0: "0 \<le> - a / d" using a0 dpos by (simp add: divide_nonpos_pos)
  have gm: "glucose_max_import g = to_float64 (a / d)"
    using a d dpos by (simp add: glucose_max_import_def)
  have ad: "\<bar>a / d\<bar> \<le> 10" "a / d \<le> 0" using q10 q0 by (simp_all add: abs_le_iff)
  from to_float64_le_10 [OF ad(1)] obtain v where
    v: "to_float64 (a / d) = Finite v" and v10: "\<bar>v\<bar> \<le> 10" and v0: "v \<le> 0"
    using ad(2) by auto
  have "\<bar>a / d\<bar> \<le> 2 ^ 1000" using ad(1) by simp
  from to_float64_finite [OF this] v have
    "\<bar>v - a / d\<bar> \<le> \<bar>a / d\<bar> / 2 ^ 53 + 1 / 2 ^ 1075" by auto
  also have "\<dots> \<le> 10 / 2 ^ 53 + 1 / 2 ^ 1075" using ad(1) by (simp add: divide_right_mono)
  finally have ev: "\<bar>v - a / d\<bar> \<le> 10 * u + h" by (simp add: u_def h_def)
  \<comment> \<open>the exact quotient\<close>
  have "(- a) * A - 10 * g * d = (- (a + 10 * g)) * A - 10 * g * (d - A)"
    by (simp add: algebra_simps)
  also have "\<bar>\<dots>\<bar> \<le> \<bar>(- (a + 10 * g)) * A\<bar> + \<bar>10 * g * (d - A)\<bar>"
    by (rule abs_triangle_ineq4)
  also have "\<dots> = \<bar>a + 10 * g\<bar> * A + 10 * g * \<bar>d - A\<bar>"
    using A0 g0 by (simp add: abs_mult)
  also have "\<dots> \<le> (10 * g * u + h) * A + 10 * g * (A * u + h)"
    using ea ed A0 g0 by (intro add_mono mult_right_mono mult_left_mono) simp_all
  also have "\<dots> = 20 * g * u * A + h * (A + 10 * g)" by (simp add: algebra_simps)
  finally have num: "\<bar>(- a) * A - 10 * g * d\<bar> \<le> 20 * g * u * A + h * (A + 10 * g)" .
  have "20 * g * u * A \<le> 20 * A * u * A"
    using gA u(1) A0 by (intro mult_right_mono mult_left_mono) simp_all
  moreover have "h * (A + 10 * g) \<le> h * (11 * A)"
    using gA h(1) by (intro mult_left_mono) simp_all
  moreover have "11 * A \<le> (5 / 2) * A * A"
  proof -
    have "11 * A \<le> (5 / 2) * 5 * A" using A0 by simp
    also have "\<dots> \<le> (5 / 2) * A * A" using A5 A0 by (simp add: mult_right_mono)
    finally show ?thesis .
  qed
  then have "h * (11 * A) \<le> h * ((5 / 2) * A * A)" using h(1) by (intro mult_left_mono) simp_all
  ultimately have "20 * g * u * A + h * (A + 10 * g) \<le> (40 * u + 5 * h) * ((A / 2) * A)"
    by (simp add: algebra_simps)
  also have "\<dots> \<le> (40 * u + 5 * h) * (d * A)"
    using dlow A0 u(1) h(1) by (intro mult_left_mono mult_right_mono) simp_all
  finally have "\<bar>(- a) * A - 10 * g * d\<bar> \<le> (40 * u + 5 * h) * (d * A)" using num by simp
  moreover have "- a / d - 10 * g / A = ((- a) * A - 10 * g * d) / (d * A)"
    using dpos A0 by (simp add: field_simps)
  ultimately have eq: "\<bar>- a / d - 10 * g / A\<bar> \<le> 40 * u + 5 * h"
    using dpos A0 by (simp add: abs_divide pos_divide_le_eq abs_mult)
  have "v - (- 10 * g / (5 + g)) = (v - a / d) - (- a / d - 10 * g / A)"
    by (simp add: A_def)
  also have "\<bar>\<dots>\<bar> \<le> \<bar>v - a / d\<bar> + \<bar>- a / d - 10 * g / A\<bar>" by (rule abs_triangle_ineq4)
  also have "\<dots> \<le> (10 * u + h) + (40 * u + 5 * h)" using ev eq by (rule add_mono)
  also have "\<dots> \<le> 64 * u" using h(3) by simp
  also have "\<dots> = 1 / 2 ^ 47" by (simp add: u_def)
  finally have err: "\<bar>v - (- 10 * g / (5 + g))\<bar> \<le> 1 / 2 ^ 47" .
  from v10 have "- 10 \<le> v" by (simp add: abs_le_iff)
  with gm v v0 err show ?thesis by auto
qed

text \<open>
  The bound at some concentrations, each operation evaluated in float64 arithmetic.
\<close>

lemma glucose_max_import_eval:
  assumes "to_float64 (- 10 * g) = Finite a" and "to_float64 (5 + g) = Finite d" and "d \<noteq> 0"
    and "to_float64 (a / d) = r"
  shows "glucose_max_import g = r"
  using assms by (simp add: glucose_max_import_def)

lemma glucose_max_import_10: "glucose_max_import 10 = Finite example_bound"
proof (rule glucose_max_import_eval)
  show "to_float64 (- 10 * 10) = Finite (- 100)"
    by (subst to_float64_small [where j = 46]) (simp_all add: round_half_even_numeral)
  show "to_float64 (5 + 10) = Finite 15"
    by (subst to_float64_small [where j = 49]) (simp_all add: round_half_even_numeral)
  show "(15::real) \<noteq> 0" by simp
  show "to_float64 (- 100 / 15) = Finite example_bound"
    by (subst to_float64_small [where j = 50]) (simp_all add: round_half_even_def example_bound_def)
qed

lemma glucose_max_import_large:
  "glucose_max_import 115361866854165952 = Finite (- 5629499534213121 / 562949953421312)"
proof (rule glucose_max_import_eval)
  show "to_float64 (- 10 * 115361866854165952) = Finite (- 1153618668541659648)"
    by (subst to_float64_large [where j = 8]) (simp_all add: round_half_even_def)
  show "to_float64 (5 + 115361866854165952) = Finite 115361866854165952"
    by (subst to_float64_large [where j = 4]) (simp_all add: round_half_even_def)
  show "(115361866854165952::real) \<noteq> 0" by simp
  show "to_float64 (- 1153618668541659648 / 115361866854165952) =
          Finite (- 5629499534213121 / 562949953421312)"
    by (subst to_float64_small [where j = 49]) (simp_all add: round_half_even_def)
qed

lemma glucose_max_import_adjacent_1:
  "glucose_max_import (2609522704985967 / 562949953421312) =
     Finite (- 5416507717050567 / 1125899906842624)"
proof (rule glucose_max_import_eval)
  show "to_float64 (- 10 * (2609522704985967 / 562949953421312)) =
          Finite (- 3261903381232459 / 70368744177664)"
    by (subst to_float64_small [where j = 47]) (simp_all add: round_half_even_def)
  show "to_float64 (5 + 2609522704985967 / 562949953421312) =
          Finite (5424272472092527 / 562949953421312)"
    by (subst to_float64_small [where j = 49]) (simp_all add: round_half_even_def)
  show "(5424272472092527 / 562949953421312 :: real) \<noteq> 0" by simp
  show "to_float64 (- 3261903381232459 / 70368744177664 / (5424272472092527 / 562949953421312)) =
          Finite (- 5416507717050567 / 1125899906842624)"
    by (subst to_float64_small [where j = 50]) (simp_all add: round_half_even_def)
qed

lemma glucose_max_import_adjacent_2:
  "glucose_max_import (5219045409971935 / 1125899906842624) =
     Finite (- 2708253858525283 / 562949953421312)"
proof (rule glucose_max_import_eval)
  show "to_float64 (- 10 * (5219045409971935 / 1125899906842624)) =
          Finite (- 6523806762464919 / 140737488355328)"
    by (subst to_float64_small [where j = 47]) (simp_all add: round_half_even_def)
  show "to_float64 (5 + 5219045409971935 / 1125899906842624) =
          Finite (339017029505783 / 35184372088832)"
    by (subst to_float64_small [where j = 49]) (simp_all add: round_half_even_def)
  show "(339017029505783 / 35184372088832 :: real) \<noteq> 0" by simp
  show "to_float64 (- 6523806762464919 / 140737488355328 / (339017029505783 / 35184372088832)) =
          Finite (- 2708253858525283 / 562949953421312)"
    by (subst to_float64_small [where j = 50]) (simp_all add: round_half_even_def)
qed

lemma glucose_max_import_negative:
  "glucose_max_import (- 159 / 32) = Finite 1590"
proof (rule glucose_max_import_eval)
  show "to_float64 (- 10 * (- 159 / 32)) = Finite (795 / 16)"
    by (subst to_float64_small [where j = 47]) (simp_all add: round_half_even_def)
  show "to_float64 (5 + - 159 / 32) = Finite (1 / 32)"
    by (subst to_float64_small [where j = 57]) (simp_all add: round_half_even_def)
  show "(1 / 32 :: real) \<noteq> 0" by simp
  show "to_float64 (795 / 16 / (1 / 32)) = Finite 1590"
    by (subst to_float64_small [where j = 42]) (simp_all add: round_half_even_def)
qed

lemma glucose_max_import_negative_normal:
  "glucose_max_import (- (159 / 32)) = Finite 1590"
  using glucose_max_import_negative by simp

lemma glucose_max_import_pole: "glucose_max_import (- 5) = PosInf"
proof -
  have "to_float64 (- 10 * - 5) = Finite 50"
    by (subst to_float64_small [where j = 47]) (simp_all add: round_half_even_numeral)
  moreover have "to_float64 (5 + - 5) = Finite 0"
    by (simp add: to_float64_def round_half_even_def floorlog_def)
  ultimately show ?thesis by (simp add: glucose_max_import_def)
qed


subsection \<open>What \<open>add_dynamic_bounds\<close> sets\<close>

lemma lower_bound_set: "lower_bound (set_lower_bound v r) = v"
  by (simp add: set_lower_bound_def)

lemma upper_bound_set:
  "upper_bound (set_lower_bound v r) = (if f_less (upper_bound r) v then v else upper_bound r)"
  by (simp add: set_lower_bound_def)

lemma add_dynamic_bounds_sets:
  "reactions m ''EX_glc__D_e'' = Some r \<Longrightarrow>
   add_dynamic_bounds [b, g] m =
     (Inr (), m\<lparr>reactions := (reactions m)
                  (''EX_glc__D_e'' \<mapsto> set_lower_bound (glucose_max_import g) r)\<rparr>)"
  by (simp add: add_dynamic_bounds_def)

lemma example_reaction:
  "reactions example_model ''EX_glc__D_e'' =
     Some \<lparr>lower_bound = Finite (- 10), upper_bound = Finite 1000\<rparr>"
  by (simp add: example_model_def)

text \<open>
  The bound can leave the interval from \<open>-10\<close> to \<open>0\<close>. At the glucose concentration
  \<open>115361866854165952\<close> (printed as \<open>1.1536186685416595e+17\<close>) the product rounds up, the
  sum rounds down, and the bound that is set is \<open>-10.000000000000002\<close>.
\<close>

theorem lower_bound_below_saturation_counterexample:
  "(0::real) \<le> 115361866854165952 \<and>
   map_option lower_bound
     (reactions (snd (add_dynamic_bounds [1 / 10, 115361866854165952] example_model))
        ''EX_glc__D_e'') =
     Some (Finite (- 5629499534213121 / 562949953421312)) \<and>
   (- 5629499534213121 / 562949953421312 :: real) < - 10"
  by (simp add: add_dynamic_bounds_sets [OF example_reaction] lower_bound_set
      glucose_max_import_large)

text \<open>
  C1 (amended). On a model that has the reaction \<open>EX_glc__D_e\<close>, and for every state
  \<open>(biomass, glucose)\<close>, \<open>add_dynamic_bounds\<close> sets the lower bound of that reaction to
  the float64 value of \<open>-10 * glucose / (5 + glucose)\<close>; for every glucose concentration
  from \<open>0\<close> to \<open>10^16\<close> this value is finite and lies in the interval from \<open>-10\<close> to \<open>0\<close>.
\<close>

theorem lower_bound_set_and_range:
  assumes "reactions m ''EX_glc__D_e'' = Some r"
  shows "(\<exists>m' r'. add_dynamic_bounds [biomass, glucose] m = (Inr (), m') \<and>
            reactions m' ''EX_glc__D_e'' = Some r' \<and>
            lower_bound r' =
              f_div (f_mul (Finite (- 10)) (Finite glucose)) (f_add (Finite 5) (Finite glucose))) \<and>
         (0 \<le> glucose \<and> glucose \<le> 10 ^ 16 \<longrightarrow>
            (\<exists>v. f_div (f_mul (Finite (- 10)) (Finite glucose)) (f_add (Finite 5) (Finite glucose)) =
                   Finite v \<and> - 10 \<le> v \<and> v \<le> 0))"
proof (intro conjI impI)
  show "\<exists>m' r'. add_dynamic_bounds [biomass, glucose] m = (Inr (), m') \<and>
          reactions m' ''EX_glc__D_e'' = Some r' \<and>
          lower_bound r' =
            f_div (f_mul (Finite (- 10)) (Finite glucose)) (f_add (Finite 5) (Finite glucose))"
    using add_dynamic_bounds_sets [OF assms, of biomass glucose]
    by (simp add: lower_bound_set glucose_max_import_def)
next
  assume "0 \<le> glucose \<and> glucose \<le> 10 ^ 16"
  then have "0 \<le> glucose" and "glucose \<le> 10 ^ 16" by simp_all
  from glucose_max_import_error [OF this]
  show "\<exists>v. f_div (f_mul (Finite (- 10)) (Finite glucose)) (f_add (Finite 5) (Finite glucose)) =
               Finite v \<and> - 10 \<le> v \<and> v \<le> 0"
    unfolding glucose_max_import_def by blast
qed

theorem lower_bound_set_and_range_witness:
  "reactions example_model ''EX_glc__D_e'' =
     Some \<lparr>lower_bound = Finite (- 10), upper_bound = Finite 1000\<rparr> \<and>
   (0::real) \<le> 10 \<and> (10::real) \<le> 10 ^ 16 \<and>
   fst (add_dynamic_bounds [1 / 10, 10] example_model) = Inr () \<and>
   map_option lower_bound
     (reactions (snd (add_dynamic_bounds [1 / 10, 10] example_model)) ''EX_glc__D_e'') =
     Some (Finite example_bound) \<and>
   - 10 \<le> example_bound \<and> example_bound \<le> 0"
proof -
  note t = lower_bound_set_and_range [OF example_reaction, of "1 / 10" 10]
  have g: "f_div (f_mul (Finite (- 10)) (Finite 10)) (f_add (Finite 5) (Finite 10)) =
             Finite example_bound"
    using glucose_max_import_10 by (simp only: glucose_max_import_def)
  from t obtain m' r' where
    "add_dynamic_bounds [1 / 10, 10] example_model = (Inr (), m')"
    "reactions m' ''EX_glc__D_e'' = Some r'"
    "lower_bound r' = Finite example_bound"
    unfolding g by blast
  moreover from t have "- 10 \<le> example_bound \<and> example_bound \<le> 0"
    unfolding g by simp
  ultimately show ?thesis using example_reaction by simp
qed

text \<open>
  The bound is not monotone in the glucose concentration. The two concentrations below
  are adjacent float64 numbers (both printed as about \<open>4.635443504572065\<close>); the bound at
  the larger one is \<open>-4.810825264423505\<close>, above the bound \<open>-4.810825264423506\<close> at the
  smaller one.
\<close>

theorem uptake_bound_not_monotone_counterexample:
  "(0::real) \<le> 2609522704985967 / 562949953421312 \<and>
   (2609522704985967 / 562949953421312 :: real) \<le> 5219045409971935 / 1125899906842624 \<and>
   map_option lower_bound
     (reactions (snd (add_dynamic_bounds [1 / 10, 2609522704985967 / 562949953421312]
        example_model)) ''EX_glc__D_e'') =
     Some (Finite (- 5416507717050567 / 1125899906842624)) \<and>
   map_option lower_bound
     (reactions (snd (add_dynamic_bounds [1 / 10, 5219045409971935 / 1125899906842624]
        example_model)) ''EX_glc__D_e'') =
     Some (Finite (- 2708253858525283 / 562949953421312)) \<and>
   (- 5416507717050567 / 1125899906842624 :: real) < - 2708253858525283 / 562949953421312"
  by (simp add: add_dynamic_bounds_sets [OF example_reaction] lower_bound_set
      glucose_max_import_adjacent_1 glucose_max_import_adjacent_2)

text \<open>
  C8 (amended). The bound is saturating, and monotone up to rounding: for glucose
  concentrations \<open>0 \<le> g1 \<le> g2 \<le> 10^16\<close> both bounds are finite, at most \<open>0\<close> and at
  least \<open>-10\<close>, and the bound at \<open>g2\<close> exceeds the bound at \<open>g1\<close> by at most \<open>2^-46\<close>.
\<close>

theorem uptake_bound_nearly_monotone:
  assumes "reactions m ''EX_glc__D_e'' = Some r"
    and "0 \<le> g1" and "g1 \<le> g2" and "g2 \<le> 10 ^ 16"
  shows "\<exists>m1 m2 r1 r2 v1 v2.
           add_dynamic_bounds [b1, g1] m = (Inr (), m1) \<and>
           add_dynamic_bounds [b2, g2] m = (Inr (), m2) \<and>
           reactions m1 ''EX_glc__D_e'' = Some r1 \<and>
           reactions m2 ''EX_glc__D_e'' = Some r2 \<and>
           lower_bound r1 = Finite v1 \<and> lower_bound r2 = Finite v2 \<and>
           v2 \<le> v1 + 1 / 2 ^ 46 \<and>
           v1 \<le> 0 \<and> v2 \<le> 0 \<and> - 10 \<le> v1 \<and> - 10 \<le> v2"
proof -
  from assms have g2: "0 \<le> g2" and g1: "g1 \<le> 10 ^ 16" by simp_all
  from glucose_max_import_error [OF assms(2) g1] obtain v1 where
    v1: "glucose_max_import g1 = Finite v1" "- 10 \<le> v1" "v1 \<le> 0"
      "\<bar>v1 - (- 10 * g1 / (5 + g1))\<bar> \<le> 1 / 2 ^ 47" by blast
  from glucose_max_import_error [OF g2 assms(4)] obtain v2 where
    v2: "glucose_max_import g2 = Finite v2" "- 10 \<le> v2" "v2 \<le> 0"
      "\<bar>v2 - (- 10 * g2 / (5 + g2))\<bar> \<le> 1 / 2 ^ 47" by blast
  have "v2 \<le> - 10 * g2 / (5 + g2) + 1 / 2 ^ 47" using v2(4) by linarith
  also have "- 10 * g2 / (5 + g2) \<le> - 10 * g1 / (5 + g1)"
    by (rule saturation_mono [OF assms(2,3)])
  also have "- 10 * g1 / (5 + g1) \<le> v1 + 1 / 2 ^ 47" using v1(4) by linarith
  finally have "v2 \<le> v1 + 1 / 2 ^ 46" by simp
  with v1 v2 show ?thesis
    using add_dynamic_bounds_sets [OF assms(1), of b1 g1]
      add_dynamic_bounds_sets [OF assms(1), of b2 g2]
    by (simp add: lower_bound_set)
qed

theorem uptake_bound_nearly_monotone_witness:
  "(0::real) \<le> 2609522704985967 / 562949953421312 \<and>
   (2609522704985967 / 562949953421312 :: real) \<le> 5219045409971935 / 1125899906842624 \<and>
   (5219045409971935 / 1125899906842624 :: real) \<le> 10 ^ 16 \<and>
   map_option lower_bound
     (reactions (snd (add_dynamic_bounds [1 / 10, 2609522704985967 / 562949953421312]
        example_model)) ''EX_glc__D_e'') =
     Some (Finite (- 5416507717050567 / 1125899906842624)) \<and>
   map_option lower_bound
     (reactions (snd (add_dynamic_bounds [1 / 10, 5219045409971935 / 1125899906842624]
        example_model)) ''EX_glc__D_e'') =
     Some (Finite (- 2708253858525283 / 562949953421312)) \<and>
   (- 2708253858525283 / 562949953421312 :: real) \<le>
     - 5416507717050567 / 1125899906842624 + 1 / 2 ^ 46"
proof -
  have h: "(0::real) \<le> 2609522704985967 / 562949953421312"
    "(2609522704985967 / 562949953421312 :: real) \<le> 5219045409971935 / 1125899906842624"
    "(5219045409971935 / 1125899906842624 :: real) \<le> 10 ^ 16"
    by simp_all
  from uptake_bound_nearly_monotone [OF example_reaction h, of "1 / 10" "1 / 10"]
  obtain m1 m2 r1 r2 v1 v2 where
    "add_dynamic_bounds [1 / 10, 2609522704985967 / 562949953421312] example_model =
       (Inr (), m1)"
    "add_dynamic_bounds [1 / 10, 5219045409971935 / 1125899906842624] example_model =
       (Inr (), m2)"
    "reactions m1 ''EX_glc__D_e'' = Some r1" "reactions m2 ''EX_glc__D_e'' = Some r2"
    "lower_bound r1 = Finite v1" "lower_bound r2 = Finite v2" "v2 \<le> v1 + 1 / 2 ^ 46"
    by blast
  then show ?thesis
    using h
    by (auto simp: add_dynamic_bounds_sets [OF example_reaction] lower_bound_set
        glucose_max_import_adjacent_1 glucose_max_import_adjacent_2)
qed

subsection \<open>What \<open>add_dynamic_bounds\<close> changes\<close>

text \<open>
  The upper bound of \<open>EX_glc__D_e\<close> is not always left as it was. At the glucose
  concentration \<open>-4.96875\<close> the new lower bound is \<open>1590\<close>, above the upper bound \<open>1000\<close>,
  and the upper bound becomes \<open>1590\<close> too.
\<close>

theorem upper_bound_moved_counterexample:
  "map_option upper_bound (reactions example_model ''EX_glc__D_e'') = Some (Finite 1000) \<and>
   map_option upper_bound
     (reactions (snd (add_dynamic_bounds [1 / 10, - 159 / 32] example_model)) ''EX_glc__D_e'') =
     Some (Finite 1590) \<and>
   map_option lower_bound
     (reactions (snd (add_dynamic_bounds [1 / 10, - 159 / 32] example_model)) ''EX_glc__D_e'') =
     Some (Finite 1590)"
  by (simp add: add_dynamic_bounds_sets [OF example_reaction] lower_bound_set upper_bound_set
      glucose_max_import_negative_normal)
    (simp add: example_model_def)

text \<open>
  C9 (amended). Whatever the state \<open>y\<close>, \<open>add_dynamic_bounds\<close> changes at most the bounds
  of the reaction \<open>EX_glc__D_e\<close>: the objective, the constraints and every other part of
  the model, the set of reactions and every other reaction are as before. When the call
  raises, the model is unchanged. When it returns, the upper bound of \<open>EX_glc__D_e\<close> is
  as before unless the new lower bound is above it, and then it is the new lower bound.
  The biomass component of \<open>y\<close> has no effect on the outcome.
\<close>

theorem add_dynamic_bounds_frame:
  "(case add_dynamic_bounds y m of (res, m') \<Rightarrow>
      objective m' = objective m \<and> constraints m' = constraints m \<and>
      m'\<lparr>reactions := reactions m\<rparr> = m \<and>
      dom (reactions m') = dom (reactions m) \<and>
      (\<forall>rid. rid \<noteq> ''EX_glc__D_e'' \<longrightarrow> reactions m' rid = reactions m rid) \<and>
      (\<forall>e. res = Inl e \<longrightarrow> m' = m) \<and>
      (res = Inr () \<longrightarrow>
         (\<exists>r r'. reactions m ''EX_glc__D_e'' = Some r \<and> reactions m' ''EX_glc__D_e'' = Some r' \<and>
            upper_bound r' =
              (if f_less (upper_bound r) (lower_bound r') then lower_bound r'
               else upper_bound r)))) \<and>
   add_dynamic_bounds [biomass1, glucose] m = add_dynamic_bounds [biomass2, glucose] m"
  by (auto simp: add_dynamic_bounds_def set_lower_bound_def Let_def
      split: list.splits option.splits)

theorem add_dynamic_bounds_frame_witness:
  "''Biomass_Ecoli_core'' \<noteq> ''EX_glc__D_e'' \<and>
   reactions (snd (add_dynamic_bounds [1 / 10, - 159 / 32] example_model)) ''Biomass_Ecoli_core'' =
     Some \<lparr>lower_bound = Finite 0, upper_bound = Finite 1000\<rparr> \<and>
   reactions (snd (add_dynamic_bounds [1 / 10, - 159 / 32] example_model)) ''EX_glc__D_e'' =
     Some \<lparr>lower_bound = Finite 1590, upper_bound = Finite 1590\<rparr> \<and>
   f_less (Finite 1000) (Finite 1590) \<and>
   objective (snd (add_dynamic_bounds [1 / 10, - 159 / 32] example_model)) =
     ''Biomass_Ecoli_core'' \<and>
   constraints (snd (add_dynamic_bounds [1 / 10, - 159 / 32] example_model)) = [] \<and>
   fst (add_dynamic_bounds [1 / 10, 10, 3] example_model) = Inl ValueError \<and>
   snd (add_dynamic_bounds [1 / 10, 10, 3] example_model) = example_model \<and>
   add_dynamic_bounds [1 / 10, - 159 / 32] example_model =
     add_dynamic_bounds [7, - 159 / 32] example_model"
proof -
  note f = add_dynamic_bounds_frame
    [where y = "[1 / 10, - 159 / 32]" and m = example_model and ?biomass1.0 = "1 / 10"
       and glucose = "- 159 / 32" and ?biomass2.0 = 7]
  note f' = add_dynamic_bounds_frame
    [where y = "[1 / 10, 10, 3]" and m = example_model and ?biomass1.0 = 1
       and glucose = 1 and ?biomass2.0 = 1]
  have e: "add_dynamic_bounds [b, - 159 / 32] example_model =
     (Inr (), example_model\<lparr>reactions := (reactions example_model)
        (''EX_glc__D_e'' \<mapsto> \<lparr>lower_bound = Finite 1590, upper_bound = Finite 1590\<rparr>)\<rparr>)" for b
    by (simp add: add_dynamic_bounds_sets [OF example_reaction] set_lower_bound_def
        glucose_max_import_negative_normal)
  have e': "add_dynamic_bounds [1 / 10, 10, 3] example_model = (Inl ValueError, example_model)"
    by (simp add: add_dynamic_bounds_def)
  show ?thesis
    using f f' unfolding e e' by (simp add: example_model_def)
qed


subsection \<open>Evaluating the right-hand side and the event function\<close>

lemma and_then_Inr: "f m = (Inr a, m') \<Longrightarrow> and_then f g m = g a m'"
  by (simp add: and_then_def)

lemma and_then_Inl: "f m = (Inl e, m') \<Longrightarrow> and_then f g m = (Inl e, m')"
  by (simp add: and_then_def)

lemma example_bounds:
  "add_dynamic_bounds [b, 10] example_model =
     (Inr (), example_model\<lparr>reactions := (reactions example_model)
        (''EX_glc__D_e'' \<mapsto>
           \<lparr>lower_bound = Finite example_bound, upper_bound = Finite 1000\<rparr>)\<rparr>)"
  by (simp add: add_dynamic_bounds_sets [OF example_reaction] set_lower_bound_def
      glucose_max_import_10 example_bound_def)

lemma example_infeasible_event:
  "infeasible_event example_library t [1 / 10, 10] example_model =
     (Inr (- 1 / 1000000), example_model)"
  by (simp add: infeasible_event_def with_model_def and_then_def example_bounds
      example_library_def epsilon_def example_bound_def)

lemma dynamic_system_raises:
  "add_dynamic_bounds [biomass, glucose] m = (Inl e, m1) \<Longrightarrow>
   dynamic_system L t [biomass, glucose] m pbar = (Inl e, m, pbar)"
  by (simp add: dynamic_system_def with_model_def and_then_Inl)

text \<open>
  C2. For every time \<open>t\<close> and state \<open>(biomass, glucose)\<close>: when the bounds are set from the
  state, the feasibility problem is added and fixed, and the lexicographic solve for
  \<open>Biomass_Ecoli_core\<close> and \<open>EX_glc__D_e\<close> (both maximised) on the resulting model yields
  the vector \<open>v\<close>, then \<open>dynamic_system\<close> returns \<open>v\<close> multiplied componentwise by the
  biomass; and \<open>dynamic_system\<close> is the right-hand side handed to the integrator.
\<close>

theorem dynamic_system_scaled_fluxes:
  assumes "add_dynamic_bounds [biomass, glucose] m = (Inr (), m1)"
    and "add_lp_feasibility L m1 = (Inr (), m2)"
    and "fix_objective_as_constraint L m2 = (Inr feasibility, m3)"
    and "add_lexicographic_constraints L
           [''Biomass_Ecoli_core'', ''EX_glc__D_e''] [''max'', ''max''] m3 = (Inr v, m4)"
  shows "fst (dynamic_system L t [biomass, glucose] m pbar) = Inr (map (\<lambda>f. f * biomass) v) \<and>
         ivp_fun (simulation_args L) = dynamic_system L"
  using assms
  by (simp add: dynamic_system_def with_model_def and_then_Inr simulation_args_def)

theorem dynamic_system_scaled_fluxes_witness:
  "fst (dynamic_system example_library 0 [1 / 10, 10] example_model None) =
     Inr (map (\<lambda>f. f * (1 / 10)) [- example_bound / 10, example_bound]) \<and>
   ivp_fun (simulation_args example_library) = dynamic_system example_library"
proof -
  let ?m1 = "example_model\<lparr>reactions := (reactions example_model)
        (''EX_glc__D_e'' \<mapsto>
           \<lparr>lower_bound = Finite example_bound, upper_bound = Finite 1000\<rparr>)\<rparr>"
  let ?m2 = "?m1\<lparr>objective := ''feasibility'', constraints := ''slack'' # constraints ?m1\<rparr>"
  let ?m3 = "?m2\<lparr>constraints := ''fixed'' # constraints ?m2\<rparr>"
  let ?objs = "[''Biomass_Ecoli_core'', ''EX_glc__D_e'']"
  let ?m4 = "?m3\<lparr>objective := ''lexicographic'', constraints := ?objs @ constraints ?m3\<rparr>"
  have 1: "add_dynamic_bounds [1 / 10, 10] example_model = (Inr (), ?m1)"
    by (rule example_bounds)
  have 2: "add_lp_feasibility example_library ?m1 = (Inr (), ?m2)"
    by (simp add: example_library_def)
  have 3: "fix_objective_as_constraint example_library ?m2 = (Inr 0, ?m3)"
    by (simp add: example_library_def example_model_def example_bound_def)
  have 4: "add_lexicographic_constraints example_library ?objs [''max'', ''max''] ?m3 =
             (Inr [- example_bound / 10, example_bound], ?m4)"
    by (simp add: example_library_def example_lex_value_def example_model_def)
  show ?thesis
    by (rule dynamic_system_scaled_fluxes [OF 1 2 3 4])
qed

text \<open>
  The event function does not return the feasibility distance itself. On the example the
  linear program is feasible at the bounds set from the state \<open>(0.1, 10)\<close>, its distance
  from feasibility is \<open>0\<close>, and \<open>infeasible_event\<close> returns \<open>-0.000001\<close>.
\<close>

theorem infeasible_event_offset_counterexample:
  "fst (fix_objective_as_constraint example_library
          (snd (add_lp_feasibility example_library
             (snd (add_dynamic_bounds [1 / 10, 10] example_model))))) = Inr 0 \<and>
   fst (infeasible_event example_library 0 [1 / 10, 10] example_model) = Inr (- 1 / 1000000) \<and>
   fst (infeasible_event example_library 0 [1 / 10, 10] example_model) \<noteq> Inr 0"
  by (simp add: example_infeasible_event example_bounds)
    (simp add: example_library_def example_model_def example_bound_def)

text \<open>
  C3 (amended). For every trial state \<open>y\<close>: when the bounds are set from \<open>y\<close>, the
  feasibility problem is added and its optimum, the distance \<open>feasibility\<close> of the linear
  program from feasibility, is computed, then \<open>infeasible_event\<close> returns that distance
  minus the tolerance \<open>epsilon = 0.000001\<close>, and leaves the model as it was. So the value
  is \<open>-0.000001\<close> where the linear program is feasible.
\<close>

theorem infeasible_event_value:
  assumes "add_dynamic_bounds y m = (Inr (), m1)"
    and "add_lp_feasibility L m1 = (Inr (), m2)"
    and "fix_objective_as_constraint L m2 = (Inr feasibility, m3)"
  shows "infeasible_event L t y m = (Inr (feasibility - 1 / 1000000), m) \<and>
         (feasibility = 0 \<longrightarrow> fst (infeasible_event L t y m) = Inr (- 1 / 1000000))"
  using assms
  by (simp add: infeasible_event_def with_model_def and_then_Inr epsilon_def)

theorem infeasible_event_value_witness:
  "infeasible_event example_library 0 [1 / 10, 10] example_model =
     (Inr (0 - 1 / 1000000), example_model) \<and>
   fst (infeasible_event example_library 0 [1 / 10, 10] example_model) = Inr (- 1 / 1000000)"
proof -
  let ?m1 = "example_model\<lparr>reactions := (reactions example_model)
        (''EX_glc__D_e'' \<mapsto>
           \<lparr>lower_bound = Finite example_bound, upper_bound = Finite 1000\<rparr>)\<rparr>"
  let ?m2 = "?m1\<lparr>objective := ''feasibility'', constraints := ''slack'' # constraints ?m1\<rparr>"
  let ?m3 = "?m2\<lparr>constraints := ''fixed'' # constraints ?m2\<rparr>"
  have 1: "add_dynamic_bounds [1 / 10, 10] example_model = (Inr (), ?m1)"
    by (rule example_bounds)
  have 2: "add_lp_feasibility example_library ?m1 = (Inr (), ?m2)"
    by (simp add: example_library_def)
  have 3: "fix_objective_as_constraint example_library ?m2 = (Inr 0, ?m3)"
    by (simp add: example_library_def example_model_def example_bound_def)
  show ?thesis
    using infeasible_event_value [OF 1 2 3, of 0] by simp
qed

lemma infeasible_event_registered:
  "ivp_events (simulation_args L) = [infeasible_event_handle L] \<and>
   event_fun (infeasible_event_handle L) = infeasible_event L \<and>
   direction (infeasible_event_handle L) = 1 \<and> terminal (infeasible_event_handle L)"
  by (simp add: simulation_args_def infeasible_event_handle_def)

subsection \<open>The model object after an evaluation\<close>

text \<open>
  C4. Every evaluation of \<open>dynamic_system\<close> and of \<open>infeasible_event\<close>, whether it returns
  or raises, leaves the model object as it found it: the reaction bounds, the objective
  and the constraints after the call are those from before the call.
\<close>

theorem model_restored:
  "fst (snd (dynamic_system L t y m pbar)) = m \<and>
   reactions (fst (snd (dynamic_system L t y m pbar))) = reactions m \<and>
   objective (fst (snd (dynamic_system L t y m pbar))) = objective m \<and>
   constraints (fst (snd (dynamic_system L t y m pbar))) = constraints m \<and>
   snd (infeasible_event L t y m) = m \<and>
   reactions (snd (infeasible_event L t y m)) = reactions m \<and>
   objective (snd (infeasible_event L t y m)) = objective m \<and>
   constraints (snd (infeasible_event L t y m)) = constraints m"
proof -
  have d: "fst (snd (dynamic_system L t y m pbar)) = m"
    by (auto simp: dynamic_system_def with_model_def split: list.splits prod.splits sum.splits)
  have e: "snd (infeasible_event L t y m) = m"
    by (auto simp: infeasible_event_def with_model_def split: prod.splits sum.splits)
  show ?thesis unfolding d e by simp
qed

theorem model_restored_witness:
  "fst (snd (dynamic_system example_library 0 [1 / 10, 10] example_model None)) = example_model \<and>
   snd (infeasible_event example_library 0 [1 / 10, 10] example_model) = example_model"
  using model_restored [of example_library 0 "[1 / 10, 10]" example_model None]
  by simp

subsection \<open>The time argument\<close>

text \<open>
  C10. The right-hand side is autonomous: for all times \<open>t1\<close> and \<open>t2\<close> and every state
  \<open>y\<close>, \<open>dynamic_system\<close> returns the same result, and leaves the same model, at \<open>t1\<close> and
  at \<open>t2\<close>; the time only reaches the description of the progress bar.
\<close>

theorem dynamic_system_autonomous:
  "fst (dynamic_system L t1 y m pbar) = fst (dynamic_system L t2 y m pbar) \<and>
   fst (snd (dynamic_system L t1 y m pbar)) = fst (snd (dynamic_system L t2 y m pbar))"
  by (auto simp: dynamic_system_def with_model_def Let_def
      split: list.splits prod.splits sum.splits)

theorem dynamic_system_autonomous_witness:
  "fst (dynamic_system example_library 0 [1 / 10, 10] example_model
          (Some \<lparr>updates = 0, description = []\<rparr>)) =
   fst (dynamic_system example_library 15 [1 / 10, 10] example_model
          (Some \<lparr>updates = 0, description = []\<rparr>))"
  using dynamic_system_autonomous
    [of example_library 0 "[1 / 10, 10]" example_model "Some \<lparr>updates = 0, description = []\<rparr>" 15]
  by (rule conjunct1)

subsection \<open>The shape of the state\<close>

lemma example_dynamic_system:
  "dynamic_system example_library t [1 / 10, 10] example_model None =
     (Inr (map (\<lambda>f. f * (1 / 10)) [- example_bound / 10, example_bound]), example_model, None)"
  by (simp add: dynamic_system_def with_model_def and_then_def example_bounds
      example_library_def example_lex_value_def)

text \<open>
  C6. The state is a 2-vector: the initial condition \<open>y0\<close> has exactly two components;
  \<open>dynamic_system\<close> raises unless its state argument has exactly two components, the
  biomass and the glucose concentration; and, the lexicographic solve returning one value
  per objective, the derivative that \<open>dynamic_system\<close> returns has exactly two components.
\<close>

theorem state_is_two_vector:
  assumes "\<And>objectives directions m v.
             fst (add_lexicographic_constraints L objectives directions m) = Inr v \<Longrightarrow>
             length v = length objectives"
  shows "length y0 = 2 \<and> length (ivp_y0 (simulation_args L)) = 2 \<and>
         (length y \<noteq> 2 \<longrightarrow> fst (dynamic_system L t y m pbar) = Inl ValueError) \<and>
         (\<forall>fluxes. fst (dynamic_system L t y m pbar) = Inr fluxes \<longrightarrow>
            (\<exists>biomass glucose. y = [biomass, glucose]) \<and> length fluxes = 2)"
proof (intro conjI impI allI)
  show "length y0 = 2" by (simp add: y0_def)
  show "length (ivp_y0 (simulation_args L)) = 2" by (simp add: simulation_args_def y0_def)
next
  assume "length y \<noteq> 2"
  then show "fst (dynamic_system L t y m pbar) = Inl ValueError"
    by (auto simp: dynamic_system_def split: list.splits)
next
  fix fluxes
  assume r: "fst (dynamic_system L t y m pbar) = Inr fluxes"
  then show "\<exists>biomass glucose. y = [biomass, glucose]"
    by (auto simp: dynamic_system_def split: list.splits)
  from r obtain v where "fluxes = map (\<lambda>f. f * hd y) v"
    and "fst (add_lexicographic_constraints L
               [''Biomass_Ecoli_core'', ''EX_glc__D_e''] [''max'', ''max'']
               (snd (fix_objective_as_constraint L
                  (snd (add_lp_feasibility L (snd (add_dynamic_bounds y m))))))) = Inr v"
    by (auto simp: dynamic_system_def with_model_def and_then_def Let_def
        split: list.splits prod.splits sum.splits)
  then show "length fluxes = 2" using assms by fastforce
qed

theorem state_is_two_vector_witness:
  "length y0 = 2 \<and>
   fst (dynamic_system example_library 0 [1 / 10, 10, 3] example_model None) = Inl ValueError \<and>
   fst (dynamic_system example_library 0 [1 / 10, 10] example_model None) =
     Inr (map (\<lambda>f. f * (1 / 10)) [- example_bound / 10, example_bound]) \<and>
   length (map (\<lambda>f. f * (1 / 10)) [- example_bound / 10, example_bound]) = 2"
proof -
  have h: "\<And>objectives directions m v.
             fst (add_lexicographic_constraints example_library objectives directions m) = Inr v \<Longrightarrow>
             length v = length objectives"
    by (auto simp: example_library_def)
  have e: "fst (dynamic_system example_library 0 [1 / 10, 10] example_model None) =
             Inr (map (\<lambda>f. f * (1 / 10)) [- example_bound / 10, example_bound])"
    by (simp add: example_dynamic_system)
  from state_is_two_vector
    [where L = example_library and y = "[1 / 10, 10, 3]" and t = 0 and m = example_model
       and pbar = None, OF h]
  have v: "fst (dynamic_system example_library 0 [1 / 10, 10, 3] example_model None) =
             Inl ValueError"
    by simp
  from state_is_two_vector
    [where L = example_library and y = "[1 / 10, 10]" and t = 0 and m = example_model
       and pbar = None, OF h] e
  have "length (map (\<lambda>f. f * (1 / 10)) [- example_bound / 10, example_bound]) = 2" by simp
  with v e show ?thesis by (simp add: y0_def)
qed

subsection \<open>The inputs of the simulation\<close>

lemma ts_nth: "i < 100 \<Longrightarrow> ts ! i = 15 * real i / 99"
  by (simp add: ts_def linspace_def Let_def nth_list_update)

lemma length_ts: "length ts = 100"
  by (simp add: ts_def linspace_def Let_def)

lemma set_ts: "set ts = (\<lambda>i. 15 * real i / 99) ` {0..<100}"
proof -
  have m: "ts = map (\<lambda>i. 15 * real i / 99) [0..<100]"
    by (rule nth_equalityI) (simp_all add: length_ts ts_nth)
  show ?thesis by (subst m) simp
qed

lemma ts_min: "Min (set ts) = 0"
proof (rule Min_eqI)
  show "finite (set ts)" by simp
  show "\<And>y. y \<in> set ts \<Longrightarrow> 0 \<le> y" by (auto simp: set_ts)
  have "15 * real (0::nat) / 99 \<in> (\<lambda>i. 15 * real i / 99) ` {0..<100}"
    by (rule imageI) simp
  then show "0 \<in> set ts" by (simp add: set_ts)
qed

lemma ts_max: "Max (set ts) = 15"
proof (rule Max_eqI)
  show "finite (set ts)" by simp
  show "\<And>y. y \<in> set ts \<Longrightarrow> y \<le> 15" by (auto simp: set_ts)
  have "15 * real (99::nat) / 99 \<in> (\<lambda>i. 15 * real i / 99) ` {0..<100}"
    by (rule imageI) simp
  then show "15 \<in> set ts" by (simp add: set_ts)
qed

text \<open>
  C7. The simulation calls the integrator with the initial concentrations
  \<open>y0 = [0.1, 10]\<close>, the time span \<open>(0, 15)\<close> and, as evaluation times, the 100 equally
  spaced points \<open>linspace 0 15 100\<close> (the point of index \<open>i\<close> is \<open>15 * i / 99\<close>); its output
  is what the integrator returns.
\<close>

theorem simulation_inputs:
  "simulation solve_ivp L m =
     solve_ivp (simulation_args L) m (Some \<lparr>updates = 0, description = []\<rparr>) \<and>
   ivp_y0 (simulation_args L) = [1 / 10, 10] \<and>
   ivp_t_span (simulation_args L) = (0, 15) \<and>
   ivp_t_eval (simulation_args L) = linspace 0 15 100 \<and>
   length (ivp_t_eval (simulation_args L)) = 100 \<and>
   (\<forall>i < 100. ivp_t_eval (simulation_args L) ! i = 15 * real i / 99)"
  by (simp add: simulation_def simulation_args_def y0_def ts_min ts_max length_ts ts_nth)
    (simp add: ts_def)

theorem simulation_inputs_witness:
  "simulation (\<lambda>args m pbar. ivp_y0 args) example_library example_model = [1 / 10, 10] \<and>
   simulation (\<lambda>args m pbar. ivp_t_span args) example_library example_model = (0, 15) \<and>
   (7::nat) < 100 \<and> ivp_t_eval (simulation_args example_library) ! 7 = 35 / 33 \<and>
   ivp_t_eval (simulation_args example_library) ! 99 = 15"
proof -
  note s1 = simulation_inputs [of "\<lambda>args m pbar. ivp_y0 args" example_library example_model]
  note s2 = simulation_inputs [of "\<lambda>args m pbar. ivp_t_span args" example_library example_model]
  from s1 have pts: "\<forall>i<100. ivp_t_eval (simulation_args example_library) ! i = 15 * real i / 99"
    by blast
  from pts have a: "ivp_t_eval (simulation_args example_library) ! 7 = 15 * real (7::nat) / 99"
    by (rule allE [of _ 7]) simp
  from pts have b: "ivp_t_eval (simulation_args example_library) ! 99 = 15 * real (99::nat) / 99"
    by (rule allE [of _ 99]) simp
  from s1 have y: "simulation (\<lambda>args m pbar. ivp_y0 args) example_library example_model =
                     [1 / 10, 10]"
    by simp
  from s2 have sp: "simulation (\<lambda>args m pbar. ivp_t_span args) example_library example_model =
                      (0, 15)"
    by simp
  from a b y sp show ?thesis by simp
qed

end
